theory Spec2Isabelle
  imports Main "HOL-Library.Word"
begin

section \<open>Strings and numbers of the host language\<close>

text \<open>
  A string of the host language is a sequence of 16-bit code units. \<open>js\<close> turns a
  literal of the source, all of whose characters are ASCII, into its code units.
\<close>

type_synonym code_unit = "16 word"

type_synonym js_string = "code_unit list"

definition js :: "string \<Rightarrow> js_string" where
  "js s = map of_char s"

text \<open>
  \<^verbatim>\<open>String.prototype.trim\<close> removes white space and line terminators from both ends:
  tab, line feed, vertical tab, form feed, carriage return, space, no-break space
  (U+00A0), U+1680, U+2000 to U+200A, the line and paragraph separators U+2028 and
  U+2029, U+202F, U+205F, U+3000 and the byte order mark U+FEFF. Each of them is one
  code unit.
\<close>

definition is_space :: "code_unit \<Rightarrow> bool" where
  "is_space u = (u = 0x0009 \<or> u = 0x000A \<or> u = 0x000B \<or> u = 0x000C \<or> u = 0x000D
                 \<or> u = 0x0020 \<or> u = 0x00A0 \<or> u = 0x1680
                 \<or> (0x2000 \<le> u \<and> u \<le> 0x200A)
                 \<or> u = 0x2028 \<or> u = 0x2029 \<or> u = 0x202F \<or> u = 0x205F
                 \<or> u = 0x3000 \<or> u = 0xFEFF)"

definition trim :: "js_string \<Rightarrow> js_string" where
  "trim s = rev (dropWhile is_space (rev (dropWhile is_space s)))"

text \<open>
  A terminal id is a natural number; a template literal renders it in decimal.
\<close>

definition digit :: "nat \<Rightarrow> code_unit" where
  "digit d = of_nat (48 + d)"

function string_of_nat :: "nat \<Rightarrow> js_string" where
  "string_of_nat n =
     (if n < 10 then [digit n] else string_of_nat (n div 10) @ [digit (n mod 10)])"
  by pat_completeness auto
termination
  by (relation "measure (\<lambda>n. n)") auto

declare string_of_nat.simps [simp del]

text \<open>
  The timeout is a number of the host language. Any type \<open>'n\<close> with numerals stands for
  the numbers, so that fractional and very large values are covered, and the text a
  template literal renders a number as is taken from the surroundings (\<open>numberToString\<close>
  below). The sample surroundings take the integers from 0 to \<open>2^32 - 1\<close> as numbers; the
  host language renders each of them in plain decimal.
\<close>

definition decimal :: "32 word \<Rightarrow> js_string" where
  "decimal w = string_of_nat (unat w)"

section \<open>Collaborators\<close>

text \<open>
  Modelled from the spec: the record \<open>TerminalInfo\<close> is the Session of the data model
  (\<^verbatim>\<open>integrations/terminal/TerminalManager\<close> is not among the source files): a unique
  identifier, the working directory it is bound to, a liveness flag and the
  shell-integration capability flag.
\<close>

record TerminalInfo =
  terminal_id :: nat
  terminal_cwd :: js_string
  terminal_live :: bool
  terminal_shell_integration :: bool

text \<open>
  Modelled from the spec: the Terminal Session Registry behind \<open>TerminalManager\<close>, a pool
  of sessions shared by all invocations. \<open>next_id\<close> is the source of unique identifiers
  and \<open>shell_integration\<close> is the capability the environment gives a new session.
\<close>

record TerminalRegistry =
  sessions :: "TerminalInfo list"
  next_id :: nat
  shell_integration :: bool

text \<open>
  Modelled from the spec: \<open>TerminalManager.getOrCreateTerminal\<close>, the contract
  \<open>acquireOrCreate(workingDirectory) -> Session\<close> of the registry: it returns an existing
  live session bound to the working directory if one exists and otherwise constructs a
  new one, which joins the pool.
\<close>

definition getOrCreateTerminal ::
  "TerminalRegistry \<Rightarrow> js_string \<Rightarrow> TerminalRegistry \<times> TerminalInfo" where
  "getOrCreateTerminal reg workingDirectory =
     (case find (\<lambda>s. terminal_live s \<and> terminal_cwd s = workingDirectory) (sessions reg) of
        Some s \<Rightarrow> (reg, s)
      | None \<Rightarrow>
          (let s = \<lparr>terminal_id = next_id reg, terminal_cwd = workingDirectory,
                    terminal_live = True,
                    terminal_shell_integration = shell_integration reg\<rparr>
           in (reg\<lparr>sessions := sessions reg @ [s], next_id := Suc (next_id reg)\<rparr>, s)))"

record ToolResponse =
  response_text :: js_string

text \<open>
  Modelled from the spec: \<open>formatResponse.toolResult\<close> (\<^verbatim>\<open>utils/response\<close> is not among
  the source files) wraps the human-readable text payload of an Execution Result; the
  handler reads it back as \<^verbatim>\<open>response.text\<close>.
\<close>

definition toolResult :: "js_string \<Rightarrow> ToolResponse" where
  "toolResult t = \<lparr>response_text = t\<rparr>"

section \<open>The process handle and its listeners\<close>

datatype process_event = Line js_string | Completed | NoShellIntegration

text \<open>
  Everything \<open>execute\<close> does that is visible outside its return value, in the order it
  happens.
\<close>

datatype 'n effect =
    Ask js_string
  | ConsoleLog js_string
  | GetOrCreateTerminal js_string
  | TerminalShow nat
  | RunCommand nat js_string
  | PromiseRace 'n
  | Delay nat
  | ShowWarningMessage js_string

text \<open>
  The three listeners attached to the process: \<open>on("line")\<close> appends the line and a
  newline to \<open>result\<close>; \<open>once("completed")\<close> sets \<open>completed\<close>;
  \<open>once("no_shell_integration")\<close> shows a warning. A \<open>once\<close> listener is detached after
  its first call.
\<close>

record 'n listeners =
  result :: js_string
  completed :: bool
  completed_attached :: bool
  no_shell_integration_attached :: bool
  shown :: "'n effect list"

definition attach :: "'n listeners" where
  "attach = \<lparr>result = [], completed = False, completed_attached = True,
             no_shell_integration_attached = True, shown = []\<rparr>"

fun emit :: "'n listeners \<Rightarrow> process_event \<Rightarrow> 'n listeners" where
  "emit st (Line line) = st\<lparr>result := result st @ line @ [0x0A]\<rparr>"
| "emit st Completed =
     (if completed_attached st then st\<lparr>completed := True, completed_attached := False\<rparr>
      else st)"
| "emit st NoShellIntegration =
     (if no_shell_integration_attached st
      then st\<lparr>no_shell_integration_attached := False,
               shown := shown st @
                 [ShowWarningMessage
                    (js ''Shell integration is not available. Some features may be limited.'')]\<rparr>
      else st)"

section \<open>ExecuteCommandTool\<close>

record ExecuteCommandTool =
  cwd :: js_string

text \<open>
  What the surroundings contribute to one call: the configured value of
  \<open>mcpServer.confirmNonDestructiveCommands\<close> (if set), the answer the confirmation
  prompt resolves to, the process events delivered while \<open>execute\<close> awaits the race and
  while it awaits the 50 ms delay, the session pool, the workspace folders, and the text
  the host language renders a number as inside a template literal.
\<close>

record 'n environment =
  confirmNonDestructiveCommands :: "bool option"
  userResponse :: js_string
  raceEvents :: "process_event list"
  delayEvents :: "process_event list"
  terminals :: TerminalRegistry
  workspaceFolders :: "js_string list option"
  numberToString :: "'n \<Rightarrow> js_string"

record 'n execution =
  effects :: "'n effect list"
  terminals_after :: TerminalRegistry
  returned :: "bool \<times> ToolResponse"

definition or_default :: "'a \<Rightarrow> 'a option \<Rightarrow> 'a" where
  "or_default d x = (case x of None \<Rightarrow> d | Some v \<Rightarrow> v)"

text \<open>\<open>customCwd || this.cwd\<close>: an absent or empty override is falsy.\<close>

definition effective_cwd :: "ExecuteCommandTool \<Rightarrow> js_string option \<Rightarrow> js_string" where
  "effective_cwd tool customCwd =
     (case customCwd of None \<Rightarrow> cwd tool
      | Some c \<Rightarrow> if c = [] then cwd tool else c)"

definition execute ::
  "ExecuteCommandTool \<Rightarrow> 'n::numeral environment \<Rightarrow> js_string \<Rightarrow> js_string option
     \<Rightarrow> bool option \<Rightarrow> bool option \<Rightarrow> 'n option \<Rightarrow> 'n execution" where
  "execute tool env command customCwd modifySomething_arg background_arg timeout_arg =
     (let modifySomething = or_default True modifySomething_arg;
          background = or_default False background_arg;
          timeout = or_default 300000 timeout_arg;
          confirmNonDestructive = or_default False (confirmNonDestructiveCommands env);
          shouldConfirm = (modifySomething \<or> confirmNonDestructive)
      in
      if shouldConfirm \<and> userResponse env \<noteq> js ''Approve'' then
        \<lparr>effects = [Ask command],
         terminals_after = terminals env,
         returned = (False, toolResult
           (js ''Command execution was denied by the user. '' @
            (if userResponse env \<noteq> js ''Deny'' then js ''Feedback: '' @ userResponse env
             else [])))\<rparr>
      else
        (let gate = (if shouldConfirm then [Ask command]
                     else [ConsoleLog
                       (js ''Executing read-only command without confirmation: '' @ command)]);
             workingDirectory = effective_cwd tool customCwd;
             acquired = getOrCreateTerminal (terminals env) workingDirectory;
             terminalInfo = snd acquired;
             terminalId = terminal_id terminalInfo;
             started = gate @ [GetOrCreateTerminal workingDirectory, TerminalShow terminalId,
                               RunCommand terminalId command]
         in
         if background then
           \<lparr>effects = started,
            terminals_after = fst acquired,
            returned = (False, toolResult
              (js ''Command started in background mode and is running in the terminal (id: '' @
               string_of_nat terminalId @ js ''). '' @
               js ''You can check the output later using the get_terminal_output tool with this terminal id.''))\<rparr>
         else
           (let raced = foldl emit attach (raceEvents env);
                delayed = foldl emit (raced\<lparr>shown := []\<rparr>) (delayEvents env);
                output = trim (result delayed);
                waited = started @ [PromiseRace timeout] @ shown raced @ [Delay 50]
                           @ shown delayed
            in
            if completed delayed then
              \<lparr>effects = waited,
               terminals_after = fst acquired,
               returned = (False, toolResult
                 (js ''Command executed in terminal (id: '' @ string_of_nat terminalId @ js '').'' @
                  (if output \<noteq> [] then [0x0A] @ js ''Output:'' @ [0x0A] @ output
                   else [])))\<rparr>
            else
              (let timeoutMessage =
                     (if timeout \<noteq> 300000
                      then js '' (timeout: '' @ numberToString env timeout @ js ''ms)'' else [])
               in
               \<lparr>effects = waited,
                terminals_after = fst acquired,
                returned = (False, toolResult
                  (js ''Command is still running in terminal (id: '' @ string_of_nat terminalId @
                   js '')'' @ timeoutMessage @ js ''.'' @
                   (if output \<noteq> []
                    then [0x0A] @ js ''Here's the output so far:'' @ [0x0A] @ output
                    else []) @
                   [0x0A, 0x0A] @
                   js ''You can check for more output later using the get_terminal_output tool with this terminal id.''))\<rparr>))))"

section \<open>The request schema and the tool handler\<close>

text \<open>
  A request as it arrives, every field possibly absent, and the request after
  \<open>executeCommandSchema\<close> has parsed it: \<open>optional().default(v)\<close> replaces an absent
  field by \<open>v\<close>, \<open>optional()\<close> keeps it absent, and a field with neither is required.
\<close>

record 'n raw_params =
  raw_command :: "js_string option"
  raw_customCwd :: "js_string option"
  raw_modifySomething :: "bool option"
  raw_background :: "bool option"
  raw_timeout :: "'n option"

record 'n params =
  params_command :: js_string
  params_customCwd :: "js_string option"
  params_modifySomething :: bool
  params_background :: bool
  params_timeout :: 'n

datatype validation_error = Required string

definition executeCommandSchema ::
  "'n::numeral raw_params \<Rightarrow> validation_error + 'n params" where
  "executeCommandSchema raw =
     (case raw_command raw of
        None \<Rightarrow> Inl (Required ''command'')
      | Some c \<Rightarrow>
          Inr \<lparr>params_command = c,
               params_customCwd = raw_customCwd raw,
               params_modifySomething = or_default True (raw_modifySomething raw),
               params_background = or_default False (raw_background raw),
               params_timeout = or_default 300000 (raw_timeout raw)\<rparr>)"

record content_item =
  content_text :: js_string

record handler_response =
  isError :: bool
  content :: "content_item list"

record 'n handling =
  response :: handler_response
  handler_effects :: "'n effect list"
  handler_terminals_after :: TerminalRegistry

text \<open>\<open>vscode.workspace.workspaceFolders?.[0]?.uri.fsPath\<close>\<close>

definition workspaceRoot :: "'n environment \<Rightarrow> js_string option" where
  "workspaceRoot env =
     (case workspaceFolders env of
        None \<Rightarrow> None
      | Some [] \<Rightarrow> None
      | Some (folder # _) \<Rightarrow> Some folder)"

text \<open>\<open>!workspaceRoot\<close> holds of an absent root and of the empty string.\<close>

definition resolvable :: "js_string option \<Rightarrow> bool" where
  "resolvable root = (case root of None \<Rightarrow> False | Some r \<Rightarrow> r \<noteq> [])"

definition executeCommandToolHandler ::
  "'n::numeral environment \<Rightarrow> 'n params \<Rightarrow> 'n handling" where
  "executeCommandToolHandler env ps =
     (if \<not> resolvable (workspaceRoot env) then
        \<lparr>response = \<lparr>isError = True,
                      content = [\<lparr>content_text = js ''No workspace folder is open''\<rparr>]\<rparr>,
         handler_effects = [],
         handler_terminals_after = terminals env\<rparr>
      else
        (let tool = \<lparr>cwd = the (workspaceRoot env)\<rparr>;
             run = execute tool env (params_command ps) (params_customCwd ps)
                     (Some (params_modifySomething ps)) (Some (params_background ps))
                     (Some (params_timeout ps));
             success = fst (returned run);
             response' = snd (returned run)
         in \<lparr>response = \<lparr>isError = (\<not> success),
                         content = [\<lparr>content_text = response_text response'\<rparr>]\<rparr>,
             handler_effects = effects run,
             handler_terminals_after = terminals_after run\<rparr>))"

text \<open>
  Modelled from the spec: the lines of output joined by newlines, which is what the
  returned text is said to contain (after trimming).
\<close>

definition join_lines :: "js_string list \<Rightarrow> js_string" where
  "join_lines ls = (case ls of [] \<Rightarrow> [] | l # rest \<Rightarrow> foldl (\<lambda>acc x. acc @ [0x0A] @ x) l rest)"

fun output_lines :: "process_event list \<Rightarrow> js_string list" where
  "output_lines [] = []"
| "output_lines (Line l # evs) = l # output_lines evs"
| "output_lines (_ # evs) = output_lines evs"

fun is_wait :: "'n effect \<Rightarrow> bool" where
  "is_wait (PromiseRace _) = True"
| "is_wait (Delay _) = True"
| "is_wait _ = False"

fun is_session_work :: "'n effect \<Rightarrow> bool" where
  "is_session_work (GetOrCreateTerminal _) = True"
| "is_session_work (TerminalShow _) = True"
| "is_session_work (RunCommand _ _) = True"
| "is_session_work _ = False"

fun is_ask :: "'n effect \<Rightarrow> bool" where
  "is_ask (Ask _) = True"
| "is_ask _ = False"

fun session_ids :: "'n effect list \<Rightarrow> nat list" where
  "session_ids [] = []"
| "session_ids (TerminalShow n # effs) = n # session_ids effs"
| "session_ids (_ # effs) = session_ids effs"

definition warning :: "'n effect" where
  "warning = ShowWarningMessage
     (js ''Shell integration is not available. Some features may be limited.'')"

text \<open>The decision \<open>shouldConfirm\<close> of \<open>execute\<close>, as a function of its two inputs.\<close>

definition confirmation_required :: "'n environment \<Rightarrow> bool option \<Rightarrow> bool" where
  "confirmation_required env modifySomething_arg =
     (or_default True modifySomething_arg
      \<or> or_default False (confirmNonDestructiveCommands env))"

text \<open>The session \<open>execute\<close> obtains once the gate is passed.\<close>

definition acquired_terminal ::
  "ExecuteCommandTool \<Rightarrow> 'n environment \<Rightarrow> js_string option \<Rightarrow> TerminalInfo" where
  "acquired_terminal tool env customCwd =
     snd (getOrCreateTerminal (terminals env) (effective_cwd tool customCwd))"

text \<open>
  The \<open>completed\<close> flag at two moments of a call that waits: when the race has settled,
  and when \<open>execute\<close> reads it, which is after the 50 ms delay that follows the race.
\<close>

definition completed_after_race :: "'n environment \<Rightarrow> bool" where
  "completed_after_race env =
     completed (foldl emit (attach :: 'n listeners) (raceEvents env))"

definition completed_when_read :: "'n environment \<Rightarrow> bool" where
  "completed_when_read env =
     completed (foldl emit ((foldl emit (attach :: 'n listeners) (raceEvents env))\<lparr>shown := []\<rparr>)
       (delayEvents env))"

text \<open>A text that states that the command is still running begins with these words.\<close>

definition states_still_running :: "js_string \<Rightarrow> bool" where
  "states_still_running t =
     (take (length (js ''Command is still running'')) t = js ''Command is still running'')"

text \<open>
  Sample surroundings: an empty pool, one workspace folder, no setting configured, and
  32-bit unsigned integers as numbers, rendered in decimal.
\<close>

definition sample_env :: "32 word environment" where
  "sample_env =
     \<lparr>confirmNonDestructiveCommands = None,
      userResponse = js ''Approve'',
      raceEvents = [Line (js ''hi''), Completed],
      delayEvents = [],
      terminals = \<lparr>sessions = [], next_id = 1, shell_integration = True\<rparr>,
      workspaceFolders = Some [js ''/ws''],
      numberToString = decimal\<rparr>"

section \<open>Auxiliary facts\<close>

lemma trim_snoc_space:
  assumes "is_space c"
  shows "trim (s @ [c]) = trim s"
proof (cases "\<forall>x \<in> set s. is_space x")
  case True
  from True assms have "\<forall>x \<in> set (s @ [c]). is_space x" by simp
  then have "dropWhile is_space (s @ [c]) = []"
    by (rule iffD2 [OF dropWhile_eq_Nil_conv])
  moreover from True have "dropWhile is_space s = []"
    by (rule iffD2 [OF dropWhile_eq_Nil_conv])
  ultimately show ?thesis by (simp only: trim_def rev.simps dropWhile.simps)
next
  case False
  then have "dropWhile is_space (s @ [c]) = dropWhile is_space s @ [c]"
    by (auto simp: dropWhile_append)
  with assms show ?thesis by (simp add: trim_def)
qed

lemma foldl_join: "foldl (\<lambda>acc x. acc @ c # x) l rest = l @ concat (map (\<lambda>x. c # x) rest)"
  by (induction rest arbitrary: l) simp_all

lemma concat_lines_join:
  "concat (map (\<lambda>l. l @ [0x0A]) ls) = (if ls = [] then [] else join_lines ls @ [0x0A])"
proof (induction ls)
  case Nil
  show ?case by simp
next
  case (Cons l rest)
  show ?case
  proof (cases rest)
    case Nil
    then show ?thesis by (simp add: join_lines_def)
  next
    case (Cons r rs)
    with Cons.IH show ?thesis by (simp add: join_lines_def foldl_join)
  qed
qed

lemma trim_concat_lines: "trim (concat (map (\<lambda>l. l @ [0x0A]) ls)) = trim (join_lines ls)"
proof (cases ls)
  case Nil
  then show ?thesis by (simp add: join_lines_def)
next
  case (Cons l rest)
  have space: "is_space (0x0A)" by (simp add: is_space_def)
  from Cons have "concat (map (\<lambda>l. l @ [0x0A]) ls) = join_lines ls @ [0x0A]"
    by (simp only: concat_lines_join) simp
  then show ?thesis by (simp only: trim_snoc_space [OF space])
qed

lemma result_foldl_emit:
  "result (foldl emit st evs) = result st @ concat (map (\<lambda>l. l @ [0x0A]) (output_lines evs))"
proof (induction evs arbitrary: st)
  case Nil
  show ?case by simp
next
  case (Cons ev evs)
  show ?case by (cases ev) (simp_all add: Cons.IH)
qed

lemma completed_attached_foldl_emit:
  "completed_attached (foldl emit st evs) = (completed_attached st \<and> Completed \<notin> set evs)"
proof (induction evs arbitrary: st)
  case Nil
  show ?case by simp
next
  case (Cons ev evs)
  show ?case by (cases ev) (auto simp: Cons.IH)
qed

lemma completed_foldl_emit:
  "completed (foldl emit st evs) =
     (completed st \<or> completed_attached st \<and> Completed \<in> set evs)"
proof (induction evs arbitrary: st)
  case Nil
  show ?case by simp
next
  case (Cons ev evs)
  show ?case by (cases ev) (auto simp: Cons.IH)
qed

lemma shown_emit: "\<exists>j. shown (emit st ev) = shown st @ replicate j warning"
proof (cases ev)
  case (Line l)
  then show ?thesis by (intro exI [of _ 0]) simp
next
  case Completed
  then show ?thesis by (intro exI [of _ 0]) simp
next
  case NoShellIntegration
  show ?thesis
  proof (cases "no_shell_integration_attached st")
    case True
    with NoShellIntegration show ?thesis by (intro exI [of _ 1]) (simp add: warning_def)
  next
    case False
    with NoShellIntegration show ?thesis by (intro exI [of _ 0]) simp
  qed
qed

lemma shown_foldl_emit: "\<exists>k. shown (foldl emit st evs) = shown st @ replicate k warning"
proof (induction evs arbitrary: st)
  case Nil
  show ?case by (intro exI [of _ 0]) simp
next
  case (Cons ev evs)
  obtain j where j: "shown (emit st ev) = shown st @ replicate j warning"
    using shown_emit by blast
  obtain k where k: "shown (foldl emit (emit st ev) evs) = shown (emit st ev) @ replicate k warning"
    using Cons.IH by blast
  show ?case
    by (intro exI [of _ "j + k"]) (simp add: j k replicate_add)
qed

lemma filter_shown:
  assumes "\<not> P warning"
  shows "filter P (shown (foldl emit st evs)) = filter P (shown st)"
proof -
  obtain k where "shown (foldl emit st evs) = shown st @ replicate k warning"
    using shown_foldl_emit by blast
  with assms show ?thesis by simp
qed

lemma execute_denied:
  assumes "confirmation_required env m" and "userResponse env \<noteq> js ''Approve''"
  shows "execute tool env command customCwd m b t =
     \<lparr>effects = [Ask command],
      terminals_after = terminals env,
      returned = (False, toolResult
        (js ''Command execution was denied by the user. '' @
         (if userResponse env \<noteq> js ''Deny'' then js ''Feedback: '' @ userResponse env else [])))\<rparr>"
  using assms by (simp add: execute_def confirmation_required_def Let_def)

lemma execute_started:
  assumes "confirmation_required env m \<longrightarrow> userResponse env = js ''Approve''"
  shows "take (Suc (Suc (Suc (Suc 0)))) (effects (execute tool env command customCwd m b t)) =
     [if confirmation_required env m then Ask command
      else ConsoleLog (js ''Executing read-only command without confirmation: '' @ command),
      GetOrCreateTerminal (effective_cwd tool customCwd),
      TerminalShow (terminal_id (acquired_terminal tool env customCwd)),
      RunCommand (terminal_id (acquired_terminal tool env customCwd)) command]"
    and "terminals_after (execute tool env command customCwd m b t) =
      fst (getOrCreateTerminal (terminals env) (effective_cwd tool customCwd))"
  using assms
  by (auto simp add: execute_def confirmation_required_def acquired_terminal_def Let_def)

lemma output_lines_append: "output_lines (xs @ ys) = output_lines xs @ output_lines ys"
  by (induction xs rule: output_lines.induct) simp_all

lemma listeners_after_both_waits:
  "result (foldl emit ((foldl emit attach r)\<lparr>shown := []\<rparr>) d) =
     concat (map (\<lambda>l. l @ [0x0A]) (output_lines (r @ d)))"
  "completed (foldl emit ((foldl emit attach r)\<lparr>shown := []\<rparr>) d) = (Completed \<in> set (r @ d))"
  by (auto simp add: result_foldl_emit completed_foldl_emit completed_attached_foldl_emit output_lines_append attach_def)

lemma execute_waited_text:
  assumes "confirmation_required env m \<longrightarrow> userResponse env = js ''Approve''"
    and "\<not> or_default False b"
  shows "response_text (snd (returned (execute tool env command customCwd m b t))) =
    (if Completed \<in> set (raceEvents env @ delayEvents env) then
       js ''Command executed in terminal (id: '' @
       string_of_nat (terminal_id (acquired_terminal tool env customCwd)) @ js '').'' @
       (if trim (join_lines (output_lines (raceEvents env @ delayEvents env))) = [] then []
        else [0x0A] @ js ''Output:'' @ [0x0A] @
             trim (join_lines (output_lines (raceEvents env @ delayEvents env))))
     else
       js ''Command is still running in terminal (id: '' @
       string_of_nat (terminal_id (acquired_terminal tool env customCwd)) @ js '')'' @
       (if or_default 300000 t = 300000 then []
        else js '' (timeout: '' @ numberToString env (or_default 300000 t) @ js ''ms)'') @ js ''.'' @
       (if trim (join_lines (output_lines (raceEvents env @ delayEvents env))) = [] then []
        else [0x0A] @ js ''Here's the output so far:'' @ [0x0A] @
             trim (join_lines (output_lines (raceEvents env @ delayEvents env)))) @
       [0x0A, 0x0A] @
       js ''You can check for more output later using the get_terminal_output tool with this terminal id.'')"
proof -
  have gate: "(confirmation_required env m \<and> userResponse env \<noteq> js ''Approve'') = False"
    using assms(1) by blast
  have waits: "or_default False b = False"
    using assms(2) by simp
  show ?thesis
    unfolding execute_def Let_def confirmation_required_def [symmetric]
    by (simp add: gate waits listeners_after_both_waits trim_concat_lines toolResult_def
        acquired_terminal_def del: set_append)
qed

lemma completed_when_read_iff:
  "completed_when_read env = (Completed \<in> set (raceEvents env @ delayEvents env))"
  unfolding completed_when_read_def by (rule listeners_after_both_waits(2))

lemma find_snoc_new:
  assumes "find P xs = None" and "P x"
  shows "find P (xs @ [x]) = Some x"
  using assms by (induction xs) (simp_all split: if_splits)

lemma getOrCreateTerminal_again:
  "getOrCreateTerminal (fst (getOrCreateTerminal reg wd)) wd =
     (fst (getOrCreateTerminal reg wd), snd (getOrCreateTerminal reg wd))"
proof (cases "find (\<lambda>s. terminal_live s \<and> terminal_cwd s = wd) (sessions reg)")
  case None
  then show ?thesis
    by (simp add: getOrCreateTerminal_def Let_def find_snoc_new)
next
  case (Some s)
  then show ?thesis by (simp add: getOrCreateTerminal_def)
qed

lemma session_ids_append: "session_ids (xs @ ys) = session_ids xs @ session_ids ys"
  by (induction xs rule: session_ids.induct) simp_all

lemma session_ids_shown: "session_ids (shown (foldl emit st evs)) = session_ids (shown st)"
proof -
  obtain k where k: "shown (foldl emit st evs) = shown st @ replicate k warning"
    using shown_foldl_emit by blast
  have "session_ids (replicate k warning) = []"
    by (induction k) (simp_all add: warning_def)
  with k show ?thesis by (simp add: session_ids_append)
qed

lemma session_ids_execute:
  assumes "confirmation_required env m \<longrightarrow> userResponse env = js ''Approve''"
  shows "session_ids (effects (execute tool env command customCwd m b t)) =
     [terminal_id (acquired_terminal tool env customCwd)]"
  using assms
  by (auto simp add: execute_def confirmation_required_def acquired_terminal_def Let_def
      session_ids_append session_ids_shown attach_def)

lemma handler_resolved:
  assumes "resolvable (workspaceRoot env)"
  shows "handler_effects (executeCommandToolHandler env ps) =
      effects (execute \<lparr>cwd = the (workspaceRoot env)\<rparr> env (params_command ps)
        (params_customCwd ps) (Some (params_modifySomething ps)) (Some (params_background ps))
        (Some (params_timeout ps)))"
    and "handler_terminals_after (executeCommandToolHandler env ps) =
      terminals_after (execute \<lparr>cwd = the (workspaceRoot env)\<rparr> env (params_command ps)
        (params_customCwd ps) (Some (params_modifySomething ps)) (Some (params_background ps))
        (Some (params_timeout ps)))"
  using assms by (simp_all add: executeCommandToolHandler_def Let_def)

lemma session_work_shown:
  "filter is_session_work (shown (foldl emit st evs)) = filter is_session_work (shown st)"
  by (rule filter_shown) (simp add: warning_def)

lemma session_work_execute:
  assumes "confirmation_required env m \<longrightarrow> userResponse env = js ''Approve''"
  shows "filter is_session_work (effects (execute tool env command customCwd m b t)) =
     [GetOrCreateTerminal (effective_cwd tool customCwd),
      TerminalShow (terminal_id (acquired_terminal tool env customCwd)),
      RunCommand (terminal_id (acquired_terminal tool env customCwd)) command]"
  using assms
  by (auto simp add: execute_def confirmation_required_def acquired_terminal_def Let_def
      session_work_shown attach_def)

lemma string_of_nat_one: "string_of_nat 1 = js ''1''" "string_of_nat (Suc 0) = js ''1''"
  by (simp_all add: string_of_nat.simps digit_def js_def)

lemma decimal_1500: "decimal 1500 = js ''1500''"
  by (simp add: decimal_def string_of_nat.simps digit_def js_def)

lemma handled_twice_same_session:
  assumes "resolvable (workspaceRoot env1)" and "resolvable (workspaceRoot env2)"
    and "confirmation_required env1 (Some (params_modifySomething ps1))
           \<longrightarrow> userResponse env1 = js ''Approve''"
    and "confirmation_required env2 (Some (params_modifySomething ps2))
           \<longrightarrow> userResponse env2 = js ''Approve''"
    and "terminals env2 = handler_terminals_after (executeCommandToolHandler env1 ps1)"
    and "effective_cwd \<lparr>cwd = the (workspaceRoot env2)\<rparr> (params_customCwd ps2) =
         effective_cwd \<lparr>cwd = the (workspaceRoot env1)\<rparr> (params_customCwd ps1)"
  shows "session_ids (handler_effects (executeCommandToolHandler env1 ps1)) =
        [terminal_id (acquired_terminal \<lparr>cwd = the (workspaceRoot env1)\<rparr> env1
           (params_customCwd ps1))]
    \<and> session_ids (handler_effects (executeCommandToolHandler env2 ps2)) =
        session_ids (handler_effects (executeCommandToolHandler env1 ps1))"
proof -
  let ?wd = "effective_cwd \<lparr>cwd = the (workspaceRoot env1)\<rparr> (params_customCwd ps1)"
  have first: "session_ids (handler_effects (executeCommandToolHandler env1 ps1)) =
      [terminal_id (snd (getOrCreateTerminal (terminals env1) ?wd))]"
    by (simp add: handler_resolved(1) [OF assms(1)] session_ids_execute [OF assms(3)]
        acquired_terminal_def)
  have pool: "terminals env2 = fst (getOrCreateTerminal (terminals env1) ?wd)"
    by (simp add: assms(5) handler_resolved(2) [OF assms(1)] execute_started(2) [OF assms(3)])
  have second: "session_ids (handler_effects (executeCommandToolHandler env2 ps2)) =
      [terminal_id (snd (getOrCreateTerminal (terminals env2) ?wd))]"
    by (simp add: handler_resolved(1) [OF assms(2)] session_ids_execute [OF assms(4)]
        acquired_terminal_def assms(6))
  show ?thesis
    by (simp add: first second pool getOrCreateTerminal_again acquired_terminal_def)
qed

section \<open>The response of the handler\<close>

text \<open>
  The first component of the pair \<open>execute\<close> returns is \<open>False\<close> on every path, and the
  handler reads it as \<open>success\<close> and answers \<open>isError: !success\<close>. Hence every response
  carries \<open>isError = True\<close>, with or without a workspace root.
\<close>

lemma handler_isError_always:
  "isError (response (executeCommandToolHandler env ps)) = True"
  by (simp add: executeCommandToolHandler_def Let_def execute_def)

text \<open>
  C1. The claim is that a request handled with a resolvable workspace root is answered
  with \<open>isError = False\<close>. On the request \<open>{command: "echo hi", modifySomething: false}\<close>
  with the workspace folder \<open>/ws\<close>, the setting not configured, and a process that prints
  \<open>hi\<close> and completes, the handler runs the command without a prompt, reports its output,
  and answers \<open>isError = True\<close>.
\<close>

theorem handler_flags_successful_run_as_error:
  "resolvable (workspaceRoot sample_env)
   \<and> executeCommandToolHandler sample_env
        \<lparr>params_command = js ''echo hi'', params_customCwd = None,
         params_modifySomething = False, params_background = False,
         params_timeout = 300000\<rparr> =
       \<lparr>response =
          \<lparr>isError = True,
           content = [\<lparr>content_text =
             js ''Command executed in terminal (id: 1).'' @ [0x0A] @ js ''Output:'' @
             [0x0A] @ js ''hi''\<rparr>]\<rparr>,
        handler_effects =
          [ConsoleLog (js ''Executing read-only command without confirmation: echo hi''),
           GetOrCreateTerminal (js ''/ws''), TerminalShow 1, RunCommand 1 (js ''echo hi''),
           PromiseRace 300000, Delay 50],
        handler_terminals_after =
          \<lparr>sessions = [\<lparr>terminal_id = 1, terminal_cwd = js ''/ws'', terminal_live = True,
                        terminal_shell_integration = True\<rparr>],
           next_id = 2, shell_integration = True\<rparr>\<rparr>"
  by (simp add: executeCommandToolHandler_def execute_def sample_env_def workspaceRoot_def
      resolvable_def or_default_def effective_cwd_def getOrCreateTerminal_def attach_def
      toolResult_def trim_def is_space_def string_of_nat_one js_def Let_def)

section \<open>The result pair of \<open>execute\<close>\<close>

text \<open>
  C2. Whatever the request and whatever the outcome (denial, background return,
  completion, still running), the first component of the pair returned by \<open>execute\<close>,
  the rejection flag, is \<open>False\<close>.
\<close>

theorem rejection_flag_always_false:
  "fst (returned (execute tool env command customCwd m b t)) = False"
  by (simp add: execute_def Let_def)

section \<open>The confirmation gate\<close>

text \<open>
  C3. The prompt is shown exactly when the modify flag (absent means true) or the setting
  \<open>confirmNonDestructiveCommands\<close> (absent means false) is true: the \<open>Ask\<close> effects of a
  call are the single prompt for the command in that case and none otherwise.
\<close>

theorem confirmation_iff_modify_or_setting:
  "filter is_ask (effects (execute tool env command customCwd m b t)) =
     (if or_default True m \<or> or_default False (confirmNonDestructiveCommands env)
      then [Ask command] else [])"
  by (auto simp add: execute_def Let_def filter_shown warning_def attach_def)

text \<open>
  C5. When the prompt is shown and its answer is anything other than \<open>Approve\<close>, the call
  ends there: the prompt is its only effect, no session is acquired or shown and no
  command is run, the pool is unchanged, and the text states the denial, followed by the
  answer itself unless the answer is the plain \<open>Deny\<close>.
\<close>

theorem denial_aborts_before_session:
  assumes "confirmation_required env m" and "userResponse env \<noteq> js ''Approve''"
  shows "effects (execute tool env command customCwd m b t) = [Ask command]
    \<and> filter is_session_work (effects (execute tool env command customCwd m b t)) = []
    \<and> terminals_after (execute tool env command customCwd m b t) = terminals env
    \<and> response_text (snd (returned (execute tool env command customCwd m b t))) =
        js ''Command execution was denied by the user. '' @
        (if userResponse env = js ''Deny'' then [] else js ''Feedback: '' @ userResponse env)"
  by (simp add: execute_denied [OF assms] toolResult_def)

theorem denial_aborts_before_session_witness:
  "confirmation_required (sample_env\<lparr>userResponse := js ''too risky''\<rparr>) None
   \<and> userResponse (sample_env\<lparr>userResponse := js ''too risky''\<rparr>) \<noteq> js ''Approve''
   \<and> effects (execute \<lparr>cwd = js ''/ws''\<rparr> (sample_env\<lparr>userResponse := js ''too risky''\<rparr>)
        (js ''rm -rf tmp'') None None None None) = [Ask (js ''rm -rf tmp'')]
   \<and> response_text (snd (returned (execute \<lparr>cwd = js ''/ws''\<rparr>
        (sample_env\<lparr>userResponse := js ''too risky''\<rparr>) (js ''rm -rf tmp'') None None None None))) =
       js ''Command execution was denied by the user. Feedback: too risky''"
proof -
  have required: "confirmation_required (sample_env\<lparr>userResponse := js ''too risky''\<rparr>) None"
    by (simp add: js_def confirmation_required_def or_default_def)
  have answer: "userResponse (sample_env\<lparr>userResponse := js ''too risky''\<rparr>) \<noteq> js ''Approve''"
    by (simp add: js_def)
  show ?thesis
    using required answer
      denial_aborts_before_session [OF required answer, of "\<lparr>cwd = js ''/ws''\<rparr>" "js ''rm -rf tmp''"
        None None None]
    by (simp add: js_def)
qed

section \<open>Background mode\<close>

text \<open>
  C4. With \<open>background = true\<close>, once the gate is passed, \<open>execute\<close> returns right after
  the command is started: no race and no delay is among its effects, the last effect is
  the start of the command, and the text names the terminal id of the session and tells
  the caller to check the output later with that id.
\<close>

theorem background_returns_before_waiting:
  assumes "confirmation_required env m \<longrightarrow> userResponse env = js ''Approve''"
  shows "filter is_wait (effects (execute tool env command customCwd m (Some True) t)) = []
    \<and> last (effects (execute tool env command customCwd m (Some True) t)) =
        RunCommand (terminal_id (acquired_terminal tool env customCwd)) command
    \<and> response_text (snd (returned (execute tool env command customCwd m (Some True) t))) =
        js ''Command started in background mode and is running in the terminal (id: '' @
        string_of_nat (terminal_id (acquired_terminal tool env customCwd)) @
        js ''). You can check the output later using the get_terminal_output tool with this terminal id.''"
  using assms
  by (auto simp add: execute_def confirmation_required_def acquired_terminal_def Let_def
      or_default_def toolResult_def js_def)

theorem background_returns_before_waiting_witness:
  "userResponse sample_env = js ''Approve''
   \<and> effects (execute \<lparr>cwd = js ''/ws''\<rparr> sample_env (js ''sleep 600'') None None (Some True) None) =
       [Ask (js ''sleep 600''), GetOrCreateTerminal (js ''/ws''), TerminalShow 1,
        RunCommand 1 (js ''sleep 600'')]
   \<and> response_text (snd (returned
        (execute \<lparr>cwd = js ''/ws''\<rparr> sample_env (js ''sleep 600'') None None (Some True) None))) =
       js ''Command started in background mode and is running in the terminal (id: 1). You can check the output later using the get_terminal_output tool with this terminal id.''"
proof -
  have gate: "confirmation_required sample_env None \<longrightarrow> userResponse sample_env = js ''Approve''"
    by (simp add: js_def sample_env_def)
  have run: "effects (execute \<lparr>cwd = js ''/ws''\<rparr> sample_env (js ''sleep 600'') None None (Some True) None) =
       [Ask (js ''sleep 600''), GetOrCreateTerminal (js ''/ws''), TerminalShow 1,
        RunCommand 1 (js ''sleep 600'')]"
    by (simp add: js_def execute_def sample_env_def or_default_def effective_cwd_def
        getOrCreateTerminal_def Let_def)
  show ?thesis
    using gate run
      background_returns_before_waiting [OF gate, of "\<lparr>cwd = js ''/ws''\<rparr>" "js ''sleep 600''"
        None None]
    by (simp add: js_def acquired_terminal_def effective_cwd_def getOrCreateTerminal_def Let_def
        sample_env_def join_lines_def trim_def is_space_def or_default_def workspaceRoot_def
        string_of_nat_one decimal_1500)
qed

section \<open>Waiting for the command\<close>

text \<open>
  C6. In a call that waits, if the \<open>completed\<close> event reaches its listener before the flag
  is read, and the lines emitted until then are \<open>ls\<close> in this order, the text is the
  header naming the terminal followed by the output section, which holds the lines joined
  by newlines and trimmed: each line once, in the order of emission. When that trimmed
  text is empty there is no output section.
\<close>

theorem completed_output_in_order:
  assumes "confirmation_required env m \<longrightarrow> userResponse env = js ''Approve''"
    and "\<not> or_default False b"
    and "Completed \<in> set (raceEvents env @ delayEvents env)"
    and "output_lines (raceEvents env @ delayEvents env) = ls"
  shows "response_text (snd (returned (execute tool env command customCwd m b t))) =
       js ''Command executed in terminal (id: '' @
       string_of_nat (terminal_id (acquired_terminal tool env customCwd)) @ js '').'' @
       (if trim (join_lines ls) = [] then []
        else [0x0A] @ js ''Output:'' @ [0x0A] @ trim (join_lines ls))"
  using assms(3,4) by (simp only: execute_waited_text [OF assms(1,2)] if_True)

theorem completed_output_in_order_witness:
  "\<not> confirmation_required
      (sample_env\<lparr>raceEvents := [Line (js ''one''), Line (js ''two'')],
                   delayEvents := [Line (js ''three''), Completed]\<rparr>) (Some False)
   \<and> \<not> or_default False None
   \<and> Completed \<in> set (raceEvents
        (sample_env\<lparr>raceEvents := [Line (js ''one''), Line (js ''two'')],
                     delayEvents := [Line (js ''three''), Completed]\<rparr>) @
       delayEvents
        (sample_env\<lparr>raceEvents := [Line (js ''one''), Line (js ''two'')],
                     delayEvents := [Line (js ''three''), Completed]\<rparr>))
   \<and> response_text (snd (returned (execute \<lparr>cwd = js ''/ws''\<rparr>
        (sample_env\<lparr>raceEvents := [Line (js ''one''), Line (js ''two'')],
                     delayEvents := [Line (js ''three''), Completed]\<rparr>)
        (js ''printf'') None (Some False) None None))) =
       js ''Command executed in terminal (id: 1).'' @ [0x0A] @ js ''Output:'' @ [0x0A] @
       js ''one'' @ [0x0A] @ js ''two'' @ [0x0A] @ js ''three''"
proof -
  let ?env = "sample_env\<lparr>raceEvents := [Line (js ''one''), Line (js ''two'')],
                         delayEvents := [Line (js ''three''), Completed]\<rparr>"
  have gate: "confirmation_required ?env (Some False) \<longrightarrow> userResponse ?env = js ''Approve''"
    by (simp add: js_def sample_env_def)
  have waits: "\<not> or_default False None"
    by (simp add: js_def or_default_def)
  have finished: "Completed \<in> set (raceEvents ?env @ delayEvents ?env)"
    by (simp add: js_def)
  have lines: "output_lines (raceEvents ?env @ delayEvents ?env) = [js ''one'', js ''two'', js ''three'']"
    by (simp add: js_def)
  show ?thesis
    using gate waits
      completed_output_in_order [OF gate waits finished lines, of "\<lparr>cwd = js ''/ws''\<rparr>" "js ''printf''"
        None None]
    by (simp add: js_def confirmation_required_def acquired_terminal_def effective_cwd_def getOrCreateTerminal_def Let_def
        sample_env_def join_lines_def trim_def is_space_def or_default_def workspaceRoot_def
        string_of_nat_one decimal_1500)
qed

text \<open>
  C7. The claim is that every call that waits and finds the \<open>completed\<close> flag still false
  after the race has settled reports the command as still running. The flag is read
  later, after the 50 ms delay that follows the race: a command that prints \<open>one\<close>
  during the race and completes during the delay has the flag false when the race
  settles, and is reported as executed.
\<close>

theorem still_running_after_race_counterexample:
  "userResponse (sample_env\<lparr>raceEvents := [Line (js ''one'')], delayEvents := [Completed]\<rparr>) =
     js ''Approve''
   \<and> \<not> or_default False (Some False)
   \<and> \<not> completed_after_race
         (sample_env\<lparr>raceEvents := [Line (js ''one'')], delayEvents := [Completed]\<rparr>)
   \<and> response_text (snd (returned (execute \<lparr>cwd = js ''/ws''\<rparr>
        (sample_env\<lparr>raceEvents := [Line (js ''one'')], delayEvents := [Completed]\<rparr>)
        (js ''make'') None (Some True) (Some False) (Some 1500)))) =
       js ''Command executed in terminal (id: 1).'' @ [0x0A] @ js ''Output:'' @ [0x0A] @
       js ''one''
   \<and> \<not> states_still_running (response_text (snd (returned (execute \<lparr>cwd = js ''/ws''\<rparr>
        (sample_env\<lparr>raceEvents := [Line (js ''one'')], delayEvents := [Completed]\<rparr>)
        (js ''make'') None (Some True) (Some False) (Some 1500)))))"
  by (simp add: execute_def sample_env_def completed_after_race_def states_still_running_def
      or_default_def effective_cwd_def getOrCreateTerminal_def attach_def toolResult_def
      trim_def is_space_def string_of_nat_one js_def Let_def)

text \<open>
  C7, amended. In a call that waits, if the \<open>completed\<close> flag is still false when it is
  read, after the race has settled and the 50 ms delay has passed, the text says that
  the command is still running in the terminal, gives the timeout in parentheses, as the
  host language renders it, exactly when it is not 300000, carries the trimmed output
  received so far when there is any, and ends with the instruction to check for more
  output later with this terminal id.
\<close>

theorem still_running_report:
  assumes "confirmation_required env m \<longrightarrow> userResponse env = js ''Approve''"
    and "\<not> or_default False b"
    and "\<not> completed_when_read env"
  shows "response_text (snd (returned (execute tool env command customCwd m b t))) =
       js ''Command is still running in terminal (id: '' @
       string_of_nat (terminal_id (acquired_terminal tool env customCwd)) @ js '')'' @
       (if or_default 300000 t = 300000 then []
        else js '' (timeout: '' @ numberToString env (or_default 300000 t) @ js ''ms)'') @
       js ''.'' @
       (if trim (join_lines (output_lines (raceEvents env @ delayEvents env))) = [] then []
        else [0x0A] @ js ''Here's the output so far:'' @ [0x0A] @
             trim (join_lines (output_lines (raceEvents env @ delayEvents env)))) @
       [0x0A, 0x0A] @
       js ''You can check for more output later using the get_terminal_output tool with this terminal id.''
    \<and> states_still_running
        (response_text (snd (returned (execute tool env command customCwd m b t))))"
proof -
  have running: "Completed \<notin> set (raceEvents env @ delayEvents env)"
    using assms(3) unfolding completed_when_read_iff .
  have report: "response_text (snd (returned (execute tool env command customCwd m b t))) =
       js ''Command is still running in terminal (id: '' @
       string_of_nat (terminal_id (acquired_terminal tool env customCwd)) @ js '')'' @
       (if or_default 300000 t = 300000 then []
        else js '' (timeout: '' @ numberToString env (or_default 300000 t) @ js ''ms)'') @
       js ''.'' @
       (if trim (join_lines (output_lines (raceEvents env @ delayEvents env))) = [] then []
        else [0x0A] @ js ''Here's the output so far:'' @ [0x0A] @
             trim (join_lines (output_lines (raceEvents env @ delayEvents env)))) @
       [0x0A, 0x0A] @
       js ''You can check for more output later using the get_terminal_output tool with this terminal id.''"
    using running by (simp only: execute_waited_text [OF assms(1,2)] if_False)
  have "js ''Command is still running in terminal (id: '' = js ''Command is still running'' @ js '' in terminal (id: ''"
    by (simp add: js_def)
  then have stated: "states_still_running (response_text (snd (returned
      (execute tool env command customCwd m b t))))"
    unfolding states_still_running_def report by simp
  from report stated show ?thesis by (rule conjI)
qed

theorem still_running_report_witness:
  "userResponse (sample_env\<lparr>raceEvents := [Line (js ''starting'')]\<rparr>) = js ''Approve''
   \<and> \<not> or_default False (Some False)
   \<and> \<not> completed_when_read (sample_env\<lparr>raceEvents := [Line (js ''starting'')]\<rparr>)
   \<and> response_text (snd (returned (execute \<lparr>cwd = js ''/ws''\<rparr>
        (sample_env\<lparr>raceEvents := [Line (js ''starting'')]\<rparr>)
        (js ''npm start'') None (Some True) (Some False) (Some 1500)))) =
       js ''Command is still running in terminal (id: 1) (timeout: 1500ms).'' @ [0x0A] @
       js ''Here's the output so far:'' @ [0x0A] @ js ''starting'' @ [0x0A, 0x0A] @
       js ''You can check for more output later using the get_terminal_output tool with this terminal id.''
   \<and> response_text (snd (returned (execute \<lparr>cwd = js ''/ws''\<rparr>
        (sample_env\<lparr>raceEvents := [Line (js ''starting'')]\<rparr>)
        (js ''npm start'') None (Some True) (Some False) None))) =
       js ''Command is still running in terminal (id: 1).'' @ [0x0A] @
       js ''Here's the output so far:'' @ [0x0A] @ js ''starting'' @ [0x0A, 0x0A] @
       js ''You can check for more output later using the get_terminal_output tool with this terminal id.''"
proof -
  let ?env = "sample_env\<lparr>raceEvents := [Line (js ''starting'')]\<rparr>"
  have gate: "confirmation_required ?env (Some True) \<longrightarrow> userResponse ?env = js ''Approve''"
    by (simp add: sample_env_def)
  have waits: "\<not> or_default False (Some False)"
    by (simp add: or_default_def)
  have running: "\<not> completed_when_read ?env"
    by (simp add: completed_when_read_def sample_env_def attach_def)
  show ?thesis
    using gate waits running
      still_running_report [OF gate waits running, of "\<lparr>cwd = js ''/ws''\<rparr>" "js ''npm start''"
        None "Some 1500"]
      still_running_report [OF gate waits running, of "\<lparr>cwd = js ''/ws''\<rparr>" "js ''npm start''"
        None None]
    by (simp add: js_def acquired_terminal_def effective_cwd_def getOrCreateTerminal_def Let_def
        sample_env_def join_lines_def trim_def is_space_def or_default_def workspaceRoot_def
        string_of_nat_one decimal_1500)
qed

section \<open>Sessions and working directories\<close>

text \<open>
  C8. Acquiring a session twice for the same working directory yields the same session
  identifier. In particular, of two requests handled one after the other, the second on
  the pool the first left behind, both passing the gate and both with the same effective
  working directory, the second runs in the session of the first.
\<close>

theorem session_reuse_same_directory:
  "terminal_id (snd (getOrCreateTerminal (fst (getOrCreateTerminal reg wd)) wd)) =
     terminal_id (snd (getOrCreateTerminal reg wd))
   \<and> (resolvable (workspaceRoot env1) \<and> resolvable (workspaceRoot env2)
       \<and> (confirmation_required env1 (Some (params_modifySomething ps1))
             \<longrightarrow> userResponse env1 = js ''Approve'')
       \<and> (confirmation_required env2 (Some (params_modifySomething ps2))
             \<longrightarrow> userResponse env2 = js ''Approve'')
       \<and> terminals env2 = handler_terminals_after (executeCommandToolHandler env1 ps1)
       \<and> effective_cwd \<lparr>cwd = the (workspaceRoot env2)\<rparr> (params_customCwd ps2) =
           effective_cwd \<lparr>cwd = the (workspaceRoot env1)\<rparr> (params_customCwd ps1)
      \<longrightarrow> session_ids (handler_effects (executeCommandToolHandler env1 ps1)) =
            [terminal_id (acquired_terminal \<lparr>cwd = the (workspaceRoot env1)\<rparr> env1
               (params_customCwd ps1))]
          \<and> session_ids (handler_effects (executeCommandToolHandler env2 ps2)) =
            session_ids (handler_effects (executeCommandToolHandler env1 ps1)))"
proof (rule conjI)
  show "terminal_id (snd (getOrCreateTerminal (fst (getOrCreateTerminal reg wd)) wd)) =
      terminal_id (snd (getOrCreateTerminal reg wd))"
    by (simp add: getOrCreateTerminal_again)
next
  show "resolvable (workspaceRoot env1) \<and> resolvable (workspaceRoot env2)
       \<and> (confirmation_required env1 (Some (params_modifySomething ps1))
             \<longrightarrow> userResponse env1 = js ''Approve'')
       \<and> (confirmation_required env2 (Some (params_modifySomething ps2))
             \<longrightarrow> userResponse env2 = js ''Approve'')
       \<and> terminals env2 = handler_terminals_after (executeCommandToolHandler env1 ps1)
       \<and> effective_cwd \<lparr>cwd = the (workspaceRoot env2)\<rparr> (params_customCwd ps2) =
           effective_cwd \<lparr>cwd = the (workspaceRoot env1)\<rparr> (params_customCwd ps1)
      \<longrightarrow> session_ids (handler_effects (executeCommandToolHandler env1 ps1)) =
            [terminal_id (acquired_terminal \<lparr>cwd = the (workspaceRoot env1)\<rparr> env1
               (params_customCwd ps1))]
          \<and> session_ids (handler_effects (executeCommandToolHandler env2 ps2)) =
            session_ids (handler_effects (executeCommandToolHandler env1 ps1))"
    using handled_twice_same_session [of env1 env2 ps1 ps2] by blast
qed

theorem session_reuse_same_directory_witness:
  "resolvable (workspaceRoot sample_env)
   \<and> session_ids (handler_effects (executeCommandToolHandler sample_env
        \<lparr>params_command = js ''echo hi'', params_customCwd = None,
         params_modifySomething = False, params_background = False,
         params_timeout = 300000\<rparr>)) = [1]
   \<and> session_ids (handler_effects (executeCommandToolHandler
        (sample_env\<lparr>terminals :=
           \<lparr>sessions = [\<lparr>terminal_id = 1, terminal_cwd = js ''/ws'', terminal_live = True,
                         terminal_shell_integration = True\<rparr>],
            next_id = 2, shell_integration = True\<rparr>\<rparr>)
        \<lparr>params_command = js ''ls'', params_customCwd = Some (js ''/ws''),
         params_modifySomething = True, params_background = True,
         params_timeout = 1000\<rparr>)) = [1]"
proof -
  let ?ps1 = "\<lparr>params_command = js ''echo hi'', params_customCwd = None,
               params_modifySomething = False, params_background = False,
               params_timeout = 300000\<rparr>"
  let ?ps2 = "\<lparr>params_command = js ''ls'', params_customCwd = Some (js ''/ws''),
               params_modifySomething = True, params_background = True,
               params_timeout = 1000\<rparr>"
  let ?env2 = "sample_env\<lparr>terminals :=
           \<lparr>sessions = [\<lparr>terminal_id = 1, terminal_cwd = js ''/ws'', terminal_live = True,
                         terminal_shell_integration = True\<rparr>],
            next_id = 2, shell_integration = True\<rparr>\<rparr>"
  have root1: "resolvable (workspaceRoot sample_env)"
    by (simp add: js_def resolvable_def workspaceRoot_def sample_env_def)
  have root2: "resolvable (workspaceRoot ?env2)"
    by (simp add: js_def resolvable_def workspaceRoot_def sample_env_def)
  have gate1: "confirmation_required sample_env (Some (params_modifySomething ?ps1))
      \<longrightarrow> userResponse sample_env = js ''Approve''"
    by (simp add: js_def sample_env_def)
  have gate2: "confirmation_required ?env2 (Some (params_modifySomething ?ps2))
      \<longrightarrow> userResponse ?env2 = js ''Approve''"
    by (simp add: js_def sample_env_def)
  have pool: "terminals ?env2 = handler_terminals_after (executeCommandToolHandler sample_env ?ps1)"
    by (simp add: js_def executeCommandToolHandler_def execute_def sample_env_def workspaceRoot_def
        resolvable_def or_default_def effective_cwd_def getOrCreateTerminal_def Let_def)
  have same: "effective_cwd \<lparr>cwd = the (workspaceRoot ?env2)\<rparr> (params_customCwd ?ps2) =
      effective_cwd \<lparr>cwd = the (workspaceRoot sample_env)\<rparr> (params_customCwd ?ps1)"
    by (simp add: js_def effective_cwd_def workspaceRoot_def sample_env_def)
  show ?thesis
    using root1 root2 gate1 gate2 pool same
      session_reuse_same_directory [of "terminals sample_env" "js ''/ws''" sample_env ?env2
        ?ps1 ?ps2]
    by (simp add: js_def acquired_terminal_def effective_cwd_def getOrCreateTerminal_def Let_def
        sample_env_def join_lines_def trim_def is_space_def or_default_def workspaceRoot_def
        string_of_nat_one decimal_1500)
qed

text \<open>
  C10. An override that is present but empty does not select a directory: once the gate
  is passed, the session is acquired for the directory the tool was constructed with,
  exactly as when the override is absent, and only a non-empty override names the
  directory of the session.
\<close>

theorem empty_override_uses_workspace_root:
  assumes "confirmation_required env m \<longrightarrow> userResponse env = js ''Approve''"
  shows "filter is_session_work (effects (execute tool env command (Some []) m b t)) =
       [GetOrCreateTerminal (cwd tool),
        TerminalShow (terminal_id (snd (getOrCreateTerminal (terminals env) (cwd tool)))),
        RunCommand (terminal_id (snd (getOrCreateTerminal (terminals env) (cwd tool)))) command]
    \<and> terminals_after (execute tool env command (Some []) m b t) =
        fst (getOrCreateTerminal (terminals env) (cwd tool))
    \<and> filter is_session_work (effects (execute tool env command None m b t)) =
        filter is_session_work (effects (execute tool env command (Some []) m b t))
    \<and> (c \<noteq> [] \<longrightarrow>
        filter is_session_work (effects (execute tool env command (Some c) m b t)) =
        [GetOrCreateTerminal c,
         TerminalShow (terminal_id (snd (getOrCreateTerminal (terminals env) c))),
         RunCommand (terminal_id (snd (getOrCreateTerminal (terminals env) c))) command])"
  by (simp add: session_work_execute [OF assms] execute_started(2) [OF assms]
      acquired_terminal_def effective_cwd_def)

theorem empty_override_uses_workspace_root_witness:
  "\<not> confirmation_required sample_env (Some False)
   \<and> filter is_session_work
        (effects (execute \<lparr>cwd = js ''/ws''\<rparr> sample_env (js ''ls'') (Some []) (Some False) None None)) =
       [GetOrCreateTerminal (js ''/ws''), TerminalShow 1, RunCommand 1 (js ''ls'')]
   \<and> filter is_session_work
        (effects (execute \<lparr>cwd = js ''/ws''\<rparr> sample_env (js ''ls'') (Some (js ''/tmp'')) (Some False)
           None None)) =
       [GetOrCreateTerminal (js ''/tmp''), TerminalShow 1, RunCommand 1 (js ''ls'')]"
proof -
  have gate: "confirmation_required sample_env (Some False)
      \<longrightarrow> userResponse sample_env = js ''Approve''"
    by (simp add: js_def sample_env_def)
  show ?thesis
    using gate
      empty_override_uses_workspace_root [OF gate, of "\<lparr>cwd = js ''/ws''\<rparr>" "js ''ls''" None None
        "js ''/tmp''"]
    by (simp add: js_def confirmation_required_def acquired_terminal_def effective_cwd_def getOrCreateTerminal_def Let_def
        sample_env_def join_lines_def trim_def is_space_def or_default_def workspaceRoot_def
        string_of_nat_one decimal_1500)
qed

section \<open>Defaults of the request\<close>

text \<open>
  C9. The schema rejects a request without a command, and in a request with a command
  it replaces an absent \<open>modifySomething\<close> by true, an absent \<open>background\<close> by false and
  an absent \<open>timeout\<close> by 300000, keeping the fields that are present. The default
  parameters of \<open>execute\<close> are the same three values.
\<close>

theorem schema_defaults:
  "(raw_command raw = None \<longrightarrow> executeCommandSchema raw = Inl (Required ''command''))
   \<and> (\<forall>c. raw_command raw = Some c \<longrightarrow>
        (\<exists>p. executeCommandSchema raw = Inr p
           \<and> params_command p = c
           \<and> params_customCwd p = raw_customCwd raw
           \<and> params_modifySomething p =
               (case raw_modifySomething raw of None \<Rightarrow> True | Some v \<Rightarrow> v)
           \<and> params_background p =
               (case raw_background raw of None \<Rightarrow> False | Some v \<Rightarrow> v)
           \<and> params_timeout p =
               (case raw_timeout raw of None \<Rightarrow> 300000 | Some v \<Rightarrow> v)))
   \<and> execute tool env command customCwd None None None =
       execute tool env command customCwd (Some True) (Some False) (Some 300000)"
  by (simp add: executeCommandSchema_def or_default_def execute_def)

theorem schema_defaults_witness:
  "raw_command \<lparr>raw_command = Some (js ''ls''), raw_customCwd = None, raw_modifySomething = None,
                raw_background = None, raw_timeout = (None :: 32 word option)\<rparr> = Some (js ''ls'')
   \<and> executeCommandSchema
        \<lparr>raw_command = Some (js ''ls''), raw_customCwd = None, raw_modifySomething = None,
         raw_background = None, raw_timeout = (None :: 32 word option)\<rparr> =
       Inr \<lparr>params_command = js ''ls'', params_customCwd = None, params_modifySomething = True,
            params_background = False, params_timeout = 300000\<rparr>
   \<and> raw_command \<lparr>raw_command = None, raw_customCwd = None, raw_modifySomething = Some False,
                  raw_background = None, raw_timeout = (None :: 32 word option)\<rparr> = None
   \<and> executeCommandSchema
        \<lparr>raw_command = None, raw_customCwd = None, raw_modifySomething = Some False,
         raw_background = None, raw_timeout = (None :: 32 word option)\<rparr> = Inl (Required ''command'')"
proof -
  let ?full = "\<lparr>raw_command = Some (js ''ls''), raw_customCwd = None, raw_modifySomething = None,
                raw_background = None, raw_timeout = (None :: 32 word option)\<rparr>"
  let ?bare = "\<lparr>raw_command = None, raw_customCwd = None, raw_modifySomething = Some False,
                raw_background = None, raw_timeout = (None :: 32 word option)\<rparr>"
  have present: "raw_command ?full = Some (js ''ls'')" by (simp add: js_def)
  have absent: "raw_command ?bare = None" by (simp add: js_def)
  show ?thesis
    using present absent schema_defaults [of ?full, where ?'b = "32 word"]
      schema_defaults [of ?bare, where ?'b = "32 word"]
    by (auto simp add: js_def)
qed

end
